theory Spec2Isabelle
  imports Complex_Main "HOL-Library.List_Lexorder" "HOL-Library.Char_ord"
begin

section \<open>Data model\<close>

text \<open>
  Monetary amounts and quantities are Python floats in the source; they are modelled as
  exact reals, so every equation below is an equation of exact arithmetic. Dates are the
  ISO strings stored in the database; they are compared as SQLite compares TEXT values
  (bytewise, lexicographically), which is the order of \<open>HOL-Library.List_Lexorder\<close> over
  \<open>HOL-Library.Char_ord\<close>.
\<close>

text \<open>A row of the \<open>transactions\<close> table; nullable columns are options.\<close>

record transaction =
  Date :: string
  Type :: string
  Sub_Type :: "string option"
  Symbol :: "string option"
  Action :: "string option"
  Quantity :: "real option"
  Average_Price :: "real option"
  Total :: "real option"
  Value :: "real option"
  Fees :: "real option"
  Commissions :: "real option"
  Asset_Category :: "string option"

text \<open>Python's \<open>x or d\<close> on a nullable number: \<open>None\<close> and \<open>0\<close> are both falsy.\<close>

definition or_else :: "real option \<Rightarrow> real \<Rightarrow> real" where
  "or_else v d = (case v of None \<Rightarrow> d | Some x \<Rightarrow> if x = 0 then d else x)"

text \<open>
  The dictionaries built for opening trades. \<open>PortfolioService\<close> builds the five base
  fields; \<open>app.py\<close> adds \<open>asset_category\<close>.
\<close>

record lot =
  date :: string
  quantity :: real
  price :: real
  total_cost :: real
  fees :: real

record cat_lot = lot +
  asset_category :: "string option"

text \<open>The dictionary \<open>_group_transactions_by_symbol\<close> builds for a sell.\<close>

record sale =
  s_date :: string
  s_quantity :: real
  s_price :: real
  total_proceeds :: real
  s_fees :: real
  s_asset_category :: "string option"

text \<open>An entry of \<open>detailed_transactions\<close>: one matched (buy, sell) pair.\<close>

record fifo_match =
  symbol :: "string option"
  buy_date :: string
  sell_date :: string
  m_quantity :: real
  buy_price :: real
  sell_price :: real
  cost_basis :: real
  proceeds :: real
  gain_loss :: real
  m_asset_category :: "string option"
  buy_price_eur :: real
  sell_price_eur :: real
  cost_basis_eur :: real
  proceeds_eur :: real
  gain_loss_eur :: real


section \<open>Currency converter\<close>

text \<open>
  The \<open>exchange_rates\<close> table as its rows \<open>(date, usd_to_eur_rate)\<close>; the column
  \<open>date\<close> is declared \<open>UNIQUE\<close>.
\<close>

type_synonym exchange_rates = "(string \<times> real) list"

text \<open>\<open>ORDER BY date DESC LIMIT 1\<close> over a non-empty selection.\<close>

fun latest_row :: "(string \<times> real) \<Rightarrow> (string \<times> real) list \<Rightarrow> (string \<times> real)" where
  "latest_row r [] = r"
| "latest_row r (x # xs) = latest_row (if fst r < fst x then x else r) xs"

text \<open>
  \<open>get_exchange_rate\<close>: the exact date first, then the closest previous date. (The source
  also returns \<open>None\<close> when the database raises; the table is taken as readable here,
  and its rates as not NULL.)
\<close>

definition get_exchange_rate :: "exchange_rates \<Rightarrow> string \<Rightarrow> real option" where
  "get_exchange_rate rows date_str =
     (case find (\<lambda>row. fst row = date_str) rows of
        Some row \<Rightarrow> Some (snd row)
      | None \<Rightarrow>
          (case filter (\<lambda>row. fst row \<le> date_str) rows of
             [] \<Rightarrow> None
           | row # others \<Rightarrow> Some (snd (latest_row row others))))"

text \<open>Python's \<open>round(x, 2)\<close>, ties to the even neighbour, on exact values.\<close>

definition round_half_even :: "real \<Rightarrow> int" where
  "round_half_even x =
     (let f = \<lfloor>x\<rfloor>; d = x - of_int f
      in if d < 1 / 2 then f
         else if 1 / 2 < d then f + 1
         else if even f then f else f + 1)"

definition round2 :: "real \<Rightarrow> real" where
  "round2 x = of_int (round_half_even (x * 100)) / 100"

definition convert_usd_to_eur :: "exchange_rates \<Rightarrow> real option \<Rightarrow> string \<Rightarrow> real option" where
  "convert_usd_to_eur rows usd_amount date_str =
     (case usd_amount of
        None \<Rightarrow> None
      | Some a \<Rightarrow>
          if a = 0 then None
          else (case get_exchange_rate rows date_str of
                  None \<Rightarrow> None
                | Some rate \<Rightarrow> if rate = 0 then None else Some (round2 (a / rate))))"

text \<open>
  The wire-funds total of the dashboard (\<open>index\<close>): each deposit is converted at its own
  date and the converted amounts are summed.
\<close>

fun wire_funds_total_eur :: "exchange_rates \<Rightarrow> string \<Rightarrow> (string option \<times> real option) list \<Rightarrow> real" where
  "wire_funds_total_eur rows current_date [] = 0"
| "wire_funds_total_eur rows current_date ((d, v) # others) =
     (let date_str = (case d of None \<Rightarrow> current_date
                      | Some s \<Rightarrow> if s = [] then current_date else take 10 s);
          usd_amount = or_else v 0;
          eur_amount = or_else (convert_usd_to_eur rows (Some usd_amount) date_str) 0
      in eur_amount + wire_funds_total_eur rows current_date others)"


section \<open>Realized gains: grouping and FIFO matching\<close>

text \<open>
  \<open>symbol_transactions\<close> is a Python dict, which keeps insertion order: an association
  list in order of first appearance. A group holds the symbol's \<open>buys\<close> and \<open>sells\<close> and the
  asset category of the symbol's first transaction.
\<close>

record symbol_group =
  buys :: "cat_lot list"
  sells :: "sale list"
  g_asset_category :: "string option"

definition buy_entry :: "transaction \<Rightarrow> cat_lot" where
  "buy_entry t =
     \<lparr>date = Date t,
      quantity = \<bar>or_else (Quantity t) 0\<bar>,
      price = \<bar>or_else (Average_Price t) 0\<bar>,
      total_cost = \<bar>or_else (Total t) 0\<bar>,
      fees = \<bar>or_else (Fees t) 0\<bar> + \<bar>or_else (Commissions t) 0\<bar>,
      asset_category = Asset_Category t\<rparr>"

definition sell_entry :: "transaction \<Rightarrow> sale" where
  "sell_entry t =
     \<lparr>s_date = Date t,
      s_quantity = \<bar>or_else (Quantity t) 0\<bar>,
      s_price = \<bar>or_else (Average_Price t) 0\<bar>,
      total_proceeds = \<bar>or_else (Total t) 0\<bar>,
      s_fees = \<bar>or_else (Fees t) 0\<bar> + \<bar>or_else (Commissions t) 0\<bar>,
      s_asset_category = Asset_Category t\<rparr>"

text \<open>The \<open>if\<close>/\<open>elif\<close> on \<open>Action\<close> in \<open>_group_transactions_by_symbol\<close>.\<close>

definition add_transaction :: "transaction \<Rightarrow> symbol_group \<Rightarrow> symbol_group" where
  "add_transaction t g =
     (if Action t \<in> set [Some ''BUY_TO_OPEN'', Some ''BUY_TO_CLOSE'']
      then g\<lparr>buys := buys g @ [buy_entry t]\<rparr>
      else if Action t \<in> set [Some ''SELL_TO_CLOSE'', Some ''SELL_TO_OPEN'']
      then g\<lparr>sells := sells g @ [sell_entry t]\<rparr>
      else g)"

fun group_insert :: "transaction \<Rightarrow> (string option \<times> symbol_group) list
    \<Rightarrow> (string option \<times> symbol_group) list" where
  "group_insert t [] =
     [(Symbol t, add_transaction t \<lparr>buys = [], sells = [], g_asset_category = Asset_Category t\<rparr>)]"
| "group_insert t ((k, g) # gs) =
     (if k = Symbol t then (k, add_transaction t g) # gs else (k, g) # group_insert t gs)"

definition group_transactions_by_symbol ::
    "transaction list \<Rightarrow> (string option \<times> symbol_group) list" where
  "group_transactions_by_symbol transactions = foldl (\<lambda>acc t. group_insert t acc) [] transactions"

record match_result =
  mr_cost_basis :: real
  mr_proceeds :: real
  mr_gain_loss :: real

definition calculate_fifo_match :: "cat_lot \<Rightarrow> sale \<Rightarrow> real \<Rightarrow> real \<Rightarrow> match_result" where
  "calculate_fifo_match buy sell matched_qty sell_qty =
     (let cb = (if quantity buy > 0
                then (matched_qty / quantity buy) * (total_cost buy + fees buy) else 0);
          pr = (if sell_qty > 0 then (matched_qty / sell_qty) * total_proceeds sell else 0)
      in \<lparr>mr_cost_basis = cb, mr_proceeds = pr, mr_gain_loss = pr - cb\<rparr>)"

text \<open>
  The dictionary appended to \<open>detailed_transactions\<close>. A missing rate is replaced by
  \<open>1.0\<close> (\<open>get_exchange_rate(...) or 1.0\<close>).
\<close>

definition make_match ::
    "exchange_rates \<Rightarrow> string option \<Rightarrow> cat_lot \<Rightarrow> sale \<Rightarrow> real \<Rightarrow> fifo_match" where
  "make_match rates symbol_key buy sell matched_qty =
     (let r = calculate_fifo_match buy sell matched_qty (s_quantity sell);
          buy_rate = or_else (get_exchange_rate rates (take 10 (date buy))) 1;
          sell_rate = or_else (get_exchange_rate rates (take 10 (s_date sell))) 1
      in \<lparr>symbol = symbol_key,
          buy_date = date buy,
          sell_date = s_date sell,
          m_quantity = matched_qty,
          buy_price = price buy,
          sell_price = s_price sell,
          cost_basis = mr_cost_basis r,
          proceeds = mr_proceeds r,
          gain_loss = mr_gain_loss r,
          m_asset_category = asset_category buy,
          buy_price_eur = price buy / buy_rate,
          sell_price_eur = s_price sell / sell_rate,
          cost_basis_eur = mr_cost_basis r / buy_rate,
          proceeds_eur = mr_proceeds r / sell_rate,
          gain_loss_eur = mr_proceeds r / sell_rate - mr_cost_basis r / buy_rate\<rparr>)"

text \<open>The running totals and the match list of \<open>_process_fifo_gains_by_category\<close>.\<close>

record gains_state =
  total_gains :: real
  total_losses :: real
  stock_gains :: real
  stock_losses :: real
  option_gains :: real
  option_losses :: real
  other_gains :: real
  other_losses :: real
  detailed_transactions :: "fifo_match list"

definition initial_state :: gains_state where
  "initial_state =
     \<lparr>total_gains = 0, total_losses = 0, stock_gains = 0, stock_losses = 0,
      option_gains = 0, option_losses = 0, other_gains = 0, other_losses = 0,
      detailed_transactions = []\<rparr>"

text \<open>Appending one match and adding its gain or loss to the totals of its category.\<close>

definition record_match :: "fifo_match \<Rightarrow> gains_state \<Rightarrow> gains_state" where
  "record_match m st =
     (let st1 = st\<lparr>detailed_transactions := detailed_transactions st @ [m]\<rparr>;
          cat = m_asset_category m
      in if gain_loss m > 0 then
           (let st2 = st1\<lparr>total_gains := total_gains st1 + gain_loss m\<rparr>
            in if cat = Some ''Stock'' then st2\<lparr>stock_gains := stock_gains st2 + gain_loss m\<rparr>
               else if cat = Some ''Option''
               then st2\<lparr>option_gains := option_gains st2 + gain_loss m\<rparr>
               else st2\<lparr>other_gains := other_gains st2 + gain_loss m\<rparr>)
         else
           (let loss_amount = \<bar>gain_loss m\<bar>;
                st2 = st1\<lparr>total_losses := total_losses st1 + loss_amount\<rparr>
            in if cat = Some ''Stock'' then st2\<lparr>stock_losses := stock_losses st2 + loss_amount\<rparr>
               else if cat = Some ''Option''
               then st2\<lparr>option_losses := option_losses st2 + loss_amount\<rparr>
               else st2\<lparr>other_losses := other_losses st2 + loss_amount\<rparr>))"

text \<open>The lot left after a partial match (\<open>buy['quantity'] -= matched_qty\<close> and the ratio).\<close>

definition shrink_buy :: "cat_lot \<Rightarrow> real \<Rightarrow> cat_lot" where
  "shrink_buy buy matched_qty =
     (let q = quantity buy - matched_qty
      in if q > 0 then
           (let ratio = q / (q + matched_qty)
            in buy\<lparr>quantity := q, total_cost := total_cost buy * ratio, fees := fees buy * ratio\<rparr>)
         else buy\<lparr>quantity := q\<rparr>)"

text \<open>
  \<open>while remaining_sell_qty > 0 and buys\<close>: the queue of open lots and the state are passed
  through; the result is the queue and the state when the loop ends.
\<close>

fun match_sell :: "exchange_rates \<Rightarrow> string option \<Rightarrow> sale \<Rightarrow> real \<Rightarrow> cat_lot list
    \<Rightarrow> gains_state \<Rightarrow> cat_lot list \<times> gains_state" where
  "match_sell rates k sell remaining_sell_qty [] st = ([], st)"
| "match_sell rates k sell remaining_sell_qty (buy # rest) st =
     (if remaining_sell_qty > 0 then
        (if quantity buy \<le> remaining_sell_qty then
           match_sell rates k sell (remaining_sell_qty - quantity buy) rest
             (record_match (make_match rates k buy sell (quantity buy)) st)
         else
           (shrink_buy buy remaining_sell_qty # rest,
            record_match (make_match rates k buy sell remaining_sell_qty) st))
      else (buy # rest, st))"

text \<open>
  The matches one run of the loop appends, in order; \<open>match_sell_emits\<close> below proves that
  this is what \<open>match_sell\<close> adds to \<open>detailed_transactions\<close>.
\<close>

fun emitted_matches :: "exchange_rates \<Rightarrow> string option \<Rightarrow> sale \<Rightarrow> real \<Rightarrow> cat_lot list
    \<Rightarrow> fifo_match list" where
  "emitted_matches rates k sell remaining_sell_qty [] = []"
| "emitted_matches rates k sell remaining_sell_qty (buy # rest) =
     (if remaining_sell_qty > 0 then
        (if quantity buy \<le> remaining_sell_qty then
           make_match rates k buy sell (quantity buy)
             # emitted_matches rates k sell (remaining_sell_qty - quantity buy) rest
         else [make_match rates k buy sell remaining_sell_qty])
      else [])"

text \<open>\<open>for sell in sells\<close>.\<close>

fun process_sells :: "exchange_rates \<Rightarrow> string option \<Rightarrow> sale list \<Rightarrow> cat_lot list
    \<Rightarrow> gains_state \<Rightarrow> cat_lot list \<times> gains_state" where
  "process_sells rates k [] open_lots st = (open_lots, st)"
| "process_sells rates k (sell # later) open_lots st =
     (case match_sell rates k sell (s_quantity sell) open_lots st of
        (open_lots', st') \<Rightarrow> process_sells rates k later open_lots' st')"

text \<open>\<open>for symbol_key, data in symbol_transactions.items()\<close>.\<close>

fun process_symbols :: "exchange_rates \<Rightarrow> (string option \<times> symbol_group) list
    \<Rightarrow> gains_state \<Rightarrow> gains_state" where
  "process_symbols rates [] st = st"
| "process_symbols rates ((k, g) # gs) st =
     process_symbols rates gs (snd (process_sells rates k (sells g) (buys g) st))"

text \<open>The dictionary \<open>_process_fifo_gains_by_category\<close> returns: the state and six EUR sums.\<close>

record gains_result = gains_state +
  stock_gains_eur :: real
  stock_losses_eur :: real
  option_gains_eur :: real
  option_losses_eur :: real
  other_gains_eur :: real
  other_losses_eur :: real

definition eur_gains :: "(string option \<Rightarrow> bool) \<Rightarrow> fifo_match list \<Rightarrow> real" where
  "eur_gains in_cat txs =
     sum_list (map gain_loss_eur
       (filter (\<lambda>tx. in_cat (m_asset_category tx) \<and> gain_loss_eur tx > 0) txs))"

definition eur_losses :: "(string option \<Rightarrow> bool) \<Rightarrow> fifo_match list \<Rightarrow> real" where
  "eur_losses in_cat txs =
     sum_list (map (\<lambda>tx. \<bar>gain_loss_eur tx\<bar>)
       (filter (\<lambda>tx. in_cat (m_asset_category tx) \<and> gain_loss_eur tx < 0) txs))"

definition process_fifo_gains_by_category ::
    "exchange_rates \<Rightarrow> (string option \<times> symbol_group) list \<Rightarrow> gains_result" where
  "process_fifo_gains_by_category rates symbol_transactions =
     (let st = process_symbols rates symbol_transactions initial_state;
          txs = detailed_transactions st;
          is_stock = (\<lambda>c. c = Some ''Stock'');
          is_option = (\<lambda>c. c = Some ''Option'');
          is_other = (\<lambda>c. c \<notin> set [Some ''Stock'', Some ''Option''])
      in \<lparr>total_gains = total_gains st, total_losses = total_losses st,
          stock_gains = stock_gains st, stock_losses = stock_losses st,
          option_gains = option_gains st, option_losses = option_losses st,
          other_gains = other_gains st, other_losses = other_losses st,
          detailed_transactions = txs,
          stock_gains_eur = eur_gains is_stock txs,
          stock_losses_eur = eur_losses is_stock txs,
          option_gains_eur = eur_gains is_option txs,
          option_losses_eur = eur_losses is_option txs,
          other_gains_eur = eur_gains is_other txs,
          other_losses_eur = eur_losses is_other txs\<rparr>)"

text \<open>
  \<open>_build_gains_query_conditions\<close> as the predicate its \<open>WHERE\<close> clause selects by;
  \<open>current_year\<close> is \<open>str(datetime.now().year)\<close>. An empty string is falsy.
\<close>

definition build_gains_query_conditions ::
    "string option \<Rightarrow> string option \<Rightarrow> string \<Rightarrow> transaction \<Rightarrow> bool" where
  "build_gains_query_conditions symbol_filter year current_year t =
     ((Type t = ''Trade'' \<or> Type t = ''Receive Deliver'')
      \<and> (case symbol_filter of
            None \<Rightarrow> True
          | Some s \<Rightarrow> if s = [] then True else Symbol t = Some s)
      \<and> (case year of
            None \<Rightarrow> True
          | Some y \<Rightarrow>
              if y = [] then True
              else if y \<noteq> ''ytd'' then take 4 (Date t) = y
              else take 4 (Date t) = current_year))"

text \<open>The dictionary \<open>calculate_realized_gains_losses\<close> returns adds the four net figures.\<close>

record realized_report = gains_result +
  net_gain_loss :: real
  stock_net_gain_loss :: real
  option_net_gain_loss :: real
  other_net_gain_loss :: real

text \<open>
  \<open>calculate_realized_gains_losses\<close>: the query (selection, then \<open>ORDER BY Date ASC\<close>),
  the grouping and the matching. \<open>store\<close> is the \<open>transactions\<close> table; rows with equal
  dates keep their table order.
\<close>

definition calculate_realized_gains_losses ::
    "transaction list \<Rightarrow> exchange_rates \<Rightarrow> string option \<Rightarrow> string option \<Rightarrow> string
     \<Rightarrow> realized_report" where
  "calculate_realized_gains_losses store rates symbol_filter year current_year =
     (let transactions =
            sort_key Date (filter (build_gains_query_conditions symbol_filter year current_year) store);
          symbol_transactions = group_transactions_by_symbol transactions;
          r = process_fifo_gains_by_category rates symbol_transactions
      in \<lparr>total_gains = total_gains r, total_losses = total_losses r,
          stock_gains = stock_gains r, stock_losses = stock_losses r,
          option_gains = option_gains r, option_losses = option_losses r,
          other_gains = other_gains r, other_losses = other_losses r,
          detailed_transactions = detailed_transactions r,
          stock_gains_eur = stock_gains_eur r, stock_losses_eur = stock_losses_eur r,
          option_gains_eur = option_gains_eur r, option_losses_eur = option_losses_eur r,
          other_gains_eur = other_gains_eur r, other_losses_eur = other_losses_eur r,
          net_gain_loss = total_gains r - total_losses r,
          stock_net_gain_loss = stock_gains r - stock_losses r,
          option_net_gain_loss = option_gains r - option_losses r,
          other_net_gain_loss = other_gains r - other_losses r\<rparr>)"


text \<open>The fields of a match that are not conversions to EUR.\<close>

definition usd_fields :: "fifo_match \<Rightarrow>
    string option \<times> string \<times> string \<times> real \<times> real \<times> real \<times> real \<times> real \<times> real \<times> string option" where
  "usd_fields m =
     (symbol m, buy_date m, sell_date m, m_quantity m, buy_price m, sell_price m,
      cost_basis m, proceeds m, gain_loss m, m_asset_category m)"

text \<open>
  Used in the proofs: every buy and sell of every group carries one of the dates \<open>D\<close>.
\<close>

definition dates_within :: "string set \<Rightarrow> (string option \<times> symbol_group) list \<Rightarrow> bool" where
  "dates_within D gs =
     (\<forall>kg \<in> set gs. date ` set (buys (snd kg)) \<subseteq> D \<and> s_date ` set (sells (snd kg)) \<subseteq> D)"

text \<open>
  The specification's wording of the yearly report, for comparison with the code: the
  matches of the full FIFO matching of all transactions, restricted to those whose
  \<open>sell_date\<close> lies within \<open>[y-01-01, y-12-31]\<close>.
\<close>

definition spec_realized_matches ::
    "transaction list \<Rightarrow> exchange_rates \<Rightarrow> string \<Rightarrow> fifo_match list" where
  "spec_realized_matches store rates y =
     filter (\<lambda>m. y @ ''-01-01'' \<le> take 10 (sell_date m) \<and> take 10 (sell_date m) \<le> y @ ''-12-31'')
       (detailed_transactions (calculate_realized_gains_losses store rates None None y))"


section \<open>Dividend allocator\<close>











section \<open>Open lots: the two computations\<close>









section \<open>Rows for concrete streams\<close>

text \<open>Shorthand for writing down a trade row and a dividend row of the table.\<close>

definition trade_row ::
    "string \<Rightarrow> string \<Rightarrow> string \<Rightarrow> real option \<Rightarrow> real \<Rightarrow> real \<Rightarrow> real \<Rightarrow> transaction" where
  "trade_row d smb act qty prc tot fee =
     \<lparr>Date = d, Type = ''Trade'', Sub_Type = None, Symbol = Some smb, Action = Some act,
      Quantity = qty, Average_Price = Some prc, Total = Some tot, Value = Some tot,
      Fees = Some fee, Commissions = Some 0, Asset_Category = Some ''Stock''\<rparr>"

definition dividend_row :: "string \<Rightarrow> string \<Rightarrow> real \<Rightarrow> transaction" where
  "dividend_row d smb v =
     \<lparr>Date = d, Type = ''Money Movement'', Sub_Type = Some ''Dividend'', Symbol = Some smb,
      Action = None, Quantity = None, Average_Price = None, Total = Some v, Value = Some v,
      Fees = None, Commissions = None, Asset_Category = None\<rparr>"


section \<open>The exchange-rate lookup\<close>


lemma latest_row_mem: "latest_row r xs \<in> set (r # xs)"
  by (induction xs arbitrary: r) auto

lemma latest_row_max: "x \<in> set (r # xs) \<Longrightarrow> fst x \<le> fst (latest_row r xs)"
proof (induction xs arbitrary: r x)
  case Nil then show ?case by simp
next
  case (Cons y ys)
  show ?case
  proof (cases "x \<in> set ((if fst r < fst y then y else r) # ys)")
    case True
    then show ?thesis using Cons.IH by simp
  next
    case False
    have le: "fst (if fst r < fst y then y else r) \<le> fst (latest_row (if fst r < fst y then y else r) ys)"
      using Cons.IH[of "if fst r < fst y then y else r" "if fst r < fst y then y else r"] by simp
    from False Cons.prems have "x = r \<or> x = y" by (auto split: if_splits)
    then have "fst x \<le> fst (if fst r < fst y then y else r)" by auto
    then show ?thesis using le by simp
  qed
qed

lemma key_in_rows: "(d, b) \<in> set rows \<Longrightarrow> d \<in> fst ` set rows"
  by force

lemma find_exact_row:
  "distinct (map fst rows) \<Longrightarrow> (d, r) \<in> set rows \<Longrightarrow> find (\<lambda>row. fst row = d) rows = Some (d, r)"
proof (induction rows)
  case Nil
  then show ?case by simp
next
  case (Cons x xs)
  show ?case
  proof (cases "fst x = d")
    case True
    have "(d, r) \<notin> set xs"
    proof
      assume "(d, r) \<in> set xs"
      then have "d \<in> fst ` set xs" by (rule key_in_rows)
      then show False using Cons.prems(1) True by simp
    qed
    then have "x = (d, r)" using Cons.prems(2) by simp
    then show ?thesis by simp
  next
    case False
    then have "(d, r) \<in> set xs" using Cons.prems(2) by auto
    then show ?thesis using Cons False by simp
  qed
qed

lemma find_no_row: "d \<notin> fst ` set rows \<Longrightarrow> find (\<lambda>row. fst row = d) rows = None"
  by (auto simp: find_None_iff dest: key_in_rows)

lemma rate_exact:
  "distinct (map fst rows) \<Longrightarrow> (d, r) \<in> set rows \<Longrightarrow> get_exchange_rate rows d = Some r"
  by (simp add: get_exchange_rate_def find_exact_row)

lemma rate_none: "\<forall>x \<in> set rows. \<not> fst x \<le> d \<Longrightarrow> get_exchange_rate rows d = None"
proof -
  assume a: "\<forall>x \<in> set rows. \<not> fst x \<le> d"
  then have "d \<notin> fst ` set rows" by auto
  then have f: "find (\<lambda>row. fst row = d) rows = None" by (rule find_no_row)
  have "filter (\<lambda>row. fst row \<le> d) rows = []" using a by (simp add: filter_empty_conv)
  then show ?thesis using f by (simp add: get_exchange_rate_def)
qed

lemma rate_previous:
  assumes dist: "distinct (map fst rows)" and nex: "d \<notin> fst ` set rows"
    and mem: "(d', r') \<in> set rows" and lt: "d' < d"
    and mx: "\<forall>x \<in> set rows. fst x < d \<longrightarrow> fst x \<le> d'"
  shows "get_exchange_rate rows d = Some r'"
proof -
  let ?sel = "filter (\<lambda>row. fst row \<le> d) rows"
  have f: "find (\<lambda>row. fst row = d) rows = None" using nex by (rule find_no_row)
  have in_sel: "(d', r') \<in> set ?sel" using mem lt by simp
  then obtain row others where sel: "?sel = row # others" by (cases ?sel) auto
  let ?L = "latest_row row others"
  have Lmem: "?L \<in> set ?sel" using latest_row_mem[of row others] sel by simp
  then have Lrows: "?L \<in> set rows" and "fst ?L \<le> d" by auto
  moreover have "fst ?L \<noteq> d" using Lrows nex by auto
  ultimately have "fst ?L < d" by simp
  then have up: "fst ?L \<le> d'" using mx Lrows by blast
  have "fst (d', r') \<le> fst ?L" using latest_row_max[of "(d', r')" row others] in_sel sel by simp
  then have "fst ?L = d'" using up by simp
  then have "?L = (d', r')" using dist Lrows mem
    by (metis eq_key_imp_eq_value prod.collapse)
  then show ?thesis using f sel by (simp add: get_exchange_rate_def)
qed

lemma rate_not_future:
  assumes "get_exchange_rate rows d = Some q"
  shows "\<exists>d''. d'' \<le> d \<and> (d'', q) \<in> set rows"
proof (cases "find (\<lambda>row. fst row = d) rows")
  case (Some row)
  then have "row \<in> set rows \<and> fst row = d" by (auto simp: find_Some_iff in_set_conv_nth)
  moreover have "q = snd row" using assms Some by (simp add: get_exchange_rate_def)
  ultimately show ?thesis by (metis order_refl prod.collapse)
next
  case None
  let ?sel = "filter (\<lambda>row. fst row \<le> d) rows"
  from assms None obtain row others where sel: "?sel = row # others" and q: "q = snd (latest_row row others)"
    by (auto simp: get_exchange_rate_def split: list.splits)
  have "latest_row row others \<in> set ?sel" using latest_row_mem[of row others] sel by simp
  then have "latest_row row others \<in> set rows \<and> fst (latest_row row others) \<le> d" by auto
  then show ?thesis using q by (metis prod.collapse)
qed

text \<open>
  C3. With the table's dates distinct (the column is \<open>UNIQUE\<close>): a row dated exactly \<open>d\<close>
  gives its rate; otherwise the row with the greatest date strictly before \<open>d\<close> gives its
  rate; a table with no date at or before \<open>d\<close> (the empty table included) gives \<open>None\<close>;
  a rate that is returned always belongs to a row dated at or before \<open>d\<close>. With rates for
  2024-01-01 (1.10) and 2024-01-10 (1.08) only, the rate of 2024-01-05 is 1.10 and the
  rate of 2023-12-31 is absent.
\<close>

theorem get_exchange_rate_policy:
  assumes "distinct (map fst rows)"
  shows "((d, r) \<in> set rows \<longrightarrow> get_exchange_rate rows d = Some r)
    \<and> (d \<notin> fst ` set rows \<and> (d', r') \<in> set rows \<and> d' < d
         \<and> (\<forall>x \<in> set rows. fst x < d \<longrightarrow> fst x \<le> d')
       \<longrightarrow> get_exchange_rate rows d = Some r')
    \<and> ((\<forall>x \<in> set rows. \<not> fst x \<le> d) \<longrightarrow> get_exchange_rate rows d = None)
    \<and> (get_exchange_rate rows d = Some q \<longrightarrow> (\<exists>d''. d'' \<le> d \<and> (d'', q) \<in> set rows))
    \<and> get_exchange_rate [(''2024-01-01'', 1.10), (''2024-01-10'', 1.08)] ''2024-01-05'' = Some 1.10
    \<and> get_exchange_rate [(''2024-01-01'', 1.10), (''2024-01-10'', 1.08)] ''2023-12-31'' = None"
proof -
  have a: "(d, r) \<in> set rows \<longrightarrow> get_exchange_rate rows d = Some r"
    using assms by (simp add: rate_exact)
  have b: "d \<notin> fst ` set rows \<and> (d', r') \<in> set rows \<and> d' < d
         \<and> (\<forall>x \<in> set rows. fst x < d \<longrightarrow> fst x \<le> d')
       \<longrightarrow> get_exchange_rate rows d = Some r'"
    using assms rate_previous[of rows d d' r'] by blast
  have c: "(\<forall>x \<in> set rows. \<not> fst x \<le> d) \<longrightarrow> get_exchange_rate rows d = None"
    using rate_none[of rows d] by blast
  have e: "get_exchange_rate rows d = Some q \<longrightarrow> (\<exists>d''. d'' \<le> d \<and> (d'', q) \<in> set rows)"
    using rate_not_future[of rows d q] by blast
  have f: "get_exchange_rate [(''2024-01-01'', 1.10), (''2024-01-10'', 1.08)] ''2024-01-05'' = Some 1.10"
    by (simp add: get_exchange_rate_def)
  have g: "get_exchange_rate [(''2024-01-01'', 1.10), (''2024-01-10'', 1.08)] ''2023-12-31'' = None"
    by (simp add: get_exchange_rate_def)
  from a b c e f g show ?thesis by blast
qed

theorem get_exchange_rate_policy_witness:
  "get_exchange_rate [(''2024-01-01'', 1.10), (''2024-01-10'', 1.08)] ''2024-01-10'' = Some 1.08
   \<and> get_exchange_rate [(''2024-01-01'', 1.10), (''2024-01-10'', 1.08)] ''2024-01-07'' = Some 1.10
   \<and> get_exchange_rate [(''2024-01-01'', 1.10), (''2024-01-10'', 1.08)] ''2023-06-30'' = None"
  using get_exchange_rate_policy
      [of "[(''2024-01-01'', 1.10), (''2024-01-10'', 1.08)]" "''2024-01-10''" "1.08"
          "''2024-01-01''" "1.10" "1.08"]
    get_exchange_rate_policy
      [of "[(''2024-01-01'', 1.10), (''2024-01-10'', 1.08)]" "''2024-01-07''" "0"
          "''2024-01-01''" "1.10" "1.10"]
    get_exchange_rate_policy
      [of "[(''2024-01-01'', 1.10), (''2024-01-10'', 1.08)]" "''2023-06-30''" "0"
          "''2024-01-01''" "1.10" "0"]
  by simp


section \<open>Sequential and single-pass removal leave the same open lots\<close>









section \<open>Dividends travel with the open lots\<close>










section \<open>What the matcher appends\<close>


lemma record_match_list [simp]:
  "detailed_transactions (record_match m st) = detailed_transactions st @ [m]"
  by (simp add: record_match_def Let_def)

lemma match_sell_emits:
  "detailed_transactions (snd (match_sell R k s rem open_lots st))
     = detailed_transactions st @ emitted_matches R k s rem open_lots"
  by (induction open_lots arbitrary: rem st) simp_all

lemma match_sell_lots_state:
  "fst (match_sell R k s rem open_lots st) = fst (match_sell R k s rem open_lots st')"
  by (induction open_lots arbitrary: rem st st') simp_all

lemma make_match_fields [simp]:
  "symbol (make_match R k b s q) = k"
  "buy_date (make_match R k b s q) = date b"
  "sell_date (make_match R k b s q) = s_date s"
  "m_quantity (make_match R k b s q) = q"
  "buy_price (make_match R k b s q) = price b"
  "sell_price (make_match R k b s q) = s_price s"
  "m_asset_category (make_match R k b s q) = asset_category b"
  by (simp_all add: make_match_def Let_def)



lemma emitted_are_matches:
  "m \<in> set (emitted_matches R k s rem open_lots) \<Longrightarrow>
   \<exists>b q. date b \<in> date ` set open_lots \<and> m = make_match R k b s q"
proof (induction open_lots arbitrary: rem)
  case Nil then show ?case by simp
next
  case (Cons b bs)
  then show ?case by (auto split: if_splits) blast+
qed

lemma shrink_buy_date [simp]: "date (shrink_buy b r) = date b"
  by (simp add: shrink_buy_def Let_def)

lemma match_sell_lot_dates:
  "date ` set (fst (match_sell R k s rem open_lots st)) \<subseteq> date ` set open_lots"
  by (induction open_lots arbitrary: rem st) auto


lemma process_sells_matches:
  "m \<in> set (detailed_transactions (snd (process_sells R k ss open_lots st))) \<Longrightarrow>
   m \<in> set (detailed_transactions st)
   \<or> (\<exists>b s q. date b \<in> date ` set open_lots \<and> s \<in> set ss \<and> m = make_match R k b s q)"
proof (induction ss arbitrary: open_lots st)
  case Nil
  then show ?case by simp
next
  case (Cons s later)
  obtain lots' st' where ms: "match_sell R k s (s_quantity s) open_lots st = (lots', st')"
    by (cases "match_sell R k s (s_quantity s) open_lots st")
  have dt: "detailed_transactions st'
      = detailed_transactions st @ emitted_matches R k s (s_quantity s) open_lots"
    using match_sell_emits[of R k s "s_quantity s" open_lots st] ms by simp
  have sub: "date ` set lots' \<subseteq> date ` set open_lots"
    using match_sell_lot_dates[of R k s "s_quantity s" open_lots st] ms by simp
  from Cons.prems ms
  have "m \<in> set (detailed_transactions (snd (process_sells R k later lots' st')))" by simp
  from Cons.IH[OF this]
  consider (old) "m \<in> set (detailed_transactions st')"
    | (new) "\<exists>b s' q. date b \<in> date ` set lots' \<and> s' \<in> set later \<and> m = make_match R k b s' q"
    by blast
  then show ?case
  proof cases
    case old
    then have "m \<in> set (detailed_transactions st)
        \<or> m \<in> set (emitted_matches R k s (s_quantity s) open_lots)"
      using dt by auto
    then show ?thesis using emitted_are_matches[of m R k s "s_quantity s" open_lots] by auto
  next
    case new
    then show ?thesis using sub by auto
  qed
qed

lemma process_symbols_matches:
  "m \<in> set (detailed_transactions (process_symbols R gs st)) \<Longrightarrow>
   m \<in> set (detailed_transactions st)
   \<or> (\<exists>k g b s q. (k, g) \<in> set gs \<and> date b \<in> date ` set (buys g) \<and> s \<in> set (sells g)
         \<and> m = make_match R k b s q)"
proof (induction gs arbitrary: st)
  case Nil
  then show ?case by simp
next
  case (Cons kg gs)
  obtain k g where kg: "kg = (k, g)" by (cases kg)
  let ?st' = "snd (process_sells R k (sells g) (buys g) st)"
  from Cons.prems kg have "m \<in> set (detailed_transactions (process_symbols R gs ?st'))" by simp
  from Cons.IH[OF this]
  consider (old) "m \<in> set (detailed_transactions ?st')"
    | (new) "\<exists>k' g' b s q. (k', g') \<in> set gs \<and> date b \<in> date ` set (buys g') \<and> s \<in> set (sells g')
         \<and> m = make_match R k' b s q"
    by blast
  then show ?case
  proof cases
    case old
    from process_sells_matches[OF old]
    consider "m \<in> set (detailed_transactions st)"
      | "\<exists>b s q. date b \<in> date ` set (buys g) \<and> s \<in> set (sells g) \<and> m = make_match R k b s q"
      by blast
    then show ?thesis
    proof cases
      case 1
      then show ?thesis by simp
    next
      case 2
      then obtain b s q where "date b \<in> date ` set (buys g)" "s \<in> set (sells g)"
        "m = make_match R k b s q" by blast
      moreover have "(k, g) \<in> set (kg # gs)" using kg by simp
      ultimately show ?thesis by blast
    qed
  next
    case new
    then obtain k' g' b s q where "(k', g') \<in> set gs" "date b \<in> date ` set (buys g')"
      "s \<in> set (sells g')" "m = make_match R k' b s q" by blast
    moreover then have "(k', g') \<in> set (kg # gs)" by simp
    ultimately show ?thesis by blast
  qed
qed

lemma report_matches_list:
  "detailed_transactions (process_fifo_gains_by_category R gs)
     = detailed_transactions (process_symbols R gs initial_state)"
  by (simp add: process_fifo_gains_by_category_def Let_def)

lemma report_matches:
  assumes "m \<in> set (detailed_transactions (process_fifo_gains_by_category R gs))"
  shows "\<exists>k g b s q. (k, g) \<in> set gs \<and> date b \<in> date ` set (buys g) \<and> s \<in> set (sells g)
         \<and> m = make_match R k b s q"
  using assms process_symbols_matches[of m R gs initial_state]
  by (simp add: report_matches_list initial_state_def)

lemma add_transaction_dates:
  "date ` set (buys g) \<subseteq> D \<Longrightarrow> s_date ` set (sells g) \<subseteq> D \<Longrightarrow> Date t \<in> D \<Longrightarrow>
   date ` set (buys (add_transaction t g)) \<subseteq> D \<and> s_date ` set (sells (add_transaction t g)) \<subseteq> D"
  by (auto simp: add_transaction_def buy_entry_def sell_entry_def)

lemma group_insert_dates:
  "dates_within D gs \<Longrightarrow> Date t \<in> D \<Longrightarrow> dates_within D (group_insert t gs)"
proof (induction gs)
  case Nil
  then show ?case
    using add_transaction_dates[of "\<lparr>buys = [], sells = [], g_asset_category = Asset_Category t\<rparr>" D t]
    by (simp add: dates_within_def)
next
  case (Cons kg gs)
  obtain k g where kg: "kg = (k, g)" by (cases kg)
  show ?case
  proof (cases "k = Symbol t")
    case True
    then show ?thesis using Cons.prems kg add_transaction_dates[of g D t]
      by (simp add: dates_within_def)
  next
    case False
    have "dates_within D gs" using Cons.prems(1) by (simp add: dates_within_def)
    then have "dates_within D (group_insert t gs)" using Cons.IH Cons.prems(2) by simp
    then show ?thesis using False Cons.prems(1) kg by (simp add: dates_within_def)
  qed
qed

lemma foldl_group_dates:
  "dates_within D acc \<Longrightarrow> Date ` set txs \<subseteq> D \<Longrightarrow>
   dates_within D (foldl (\<lambda>acc t. group_insert t acc) acc txs)"
  by (induction txs arbitrary: acc) (simp_all add: group_insert_dates)

lemma grouped_dates: "dates_within (Date ` set txs) (group_transactions_by_symbol txs)"
  using foldl_group_dates[of "Date ` set txs" "[]" txs]
  by (simp add: group_transactions_by_symbol_def dates_within_def)

lemmas eval_defs = calculate_realized_gains_losses_def process_fifo_gains_by_category_def
  group_transactions_by_symbol_def add_transaction_def buy_entry_def sell_entry_def
  build_gains_query_conditions_def trade_row_def dividend_row_def or_else_def Let_def
  initial_state_def record_match_def make_match_def calculate_fifo_match_def shrink_buy_def
  get_exchange_rate_def eur_gains_def eur_losses_def

lemma year_filter_first:
  assumes "y \<noteq> []" "y \<noteq> ''ytd''"
  shows "calculate_realized_gains_losses store R sf (Some y) cy
       = calculate_realized_gains_losses (filter (\<lambda>t. take 4 (Date t) = y) store) R sf None cy"
proof -
  have eq: "build_gains_query_conditions sf (Some y) cy
      = (\<lambda>t. take 4 (Date t) = y \<and> build_gains_query_conditions sf None cy t)"
    using assms by (auto simp: build_gains_query_conditions_def fun_eq_iff)
  show ?thesis by (simp add: calculate_realized_gains_losses_def eq)
qed

lemma report_dates_from_query:
  assumes "m \<in> set (detailed_transactions (calculate_realized_gains_losses store R sf yr cy))"
  shows "\<exists>t1 t2. t1 \<in> set store \<and> t2 \<in> set store
     \<and> build_gains_query_conditions sf yr cy t1 \<and> build_gains_query_conditions sf yr cy t2
     \<and> buy_date m = Date t1 \<and> sell_date m = Date t2"
proof -
  let ?txs = "sort_key Date (filter (build_gains_query_conditions sf yr cy) store)"
  let ?gs = "group_transactions_by_symbol ?txs"
  have "m \<in> set (detailed_transactions (process_fifo_gains_by_category R ?gs))"
    using assms by (simp add: calculate_realized_gains_losses_def Let_def)
  from report_matches[OF this] obtain k g b s q where
    kg: "(k, g) \<in> set ?gs" and b: "date b \<in> date ` set (buys g)" and s: "s \<in> set (sells g)"
    and m: "m = make_match R k b s q" by blast
  have "dates_within (Date ` set ?txs) ?gs" by (rule grouped_dates)
  then have "date ` set (buys g) \<subseteq> Date ` set ?txs" "s_date ` set (sells g) \<subseteq> Date ` set ?txs"
    using kg unfolding dates_within_def by force+
  then have "date b \<in> Date ` set ?txs" "s_date s \<in> Date ` set ?txs" using b s by auto
  then obtain t1 t2 where "t1 \<in> set ?txs" "t2 \<in> set ?txs" "date b = Date t1" "s_date s = Date t2"
    by auto
  then show ?thesis using m by auto
qed






lemma partial_first_lot:
  assumes "0 < q" "q < quantity b1"
  shows "shrink_buy b1 q = b1\<lparr>quantity := quantity b1 - q,
            total_cost := total_cost b1 * ((quantity b1 - q) / quantity b1),
            fees := fees b1 * ((quantity b1 - q) / quantity b1)\<rparr>"
  using assms by (simp add: shrink_buy_def Let_def)

lemma single_close:
  assumes "0 < s_quantity sell" "s_quantity sell < quantity b1"
  shows "process_sells R k [sell] (b1 # later) st
     = (shrink_buy b1 (s_quantity sell) # later,
        record_match (make_match R k b1 sell (s_quantity sell)) st)"
  using assms by simp

lemma make_match_cost:
  "0 < quantity b \<Longrightarrow> cost_basis (make_match R k b s q) = (q / quantity b) * (total_cost b + fees b)"
  by (simp add: make_match_def calculate_fifo_match_def Let_def)





section \<open>What the grouping puts into the two lists\<close>














section \<open>Rates, rounding and the EUR fields\<close>


lemma usd_fields_make_match:
  "usd_fields (make_match R k b s q) = usd_fields (make_match R' k b s q)"
  by (simp add: usd_fields_def make_match_def Let_def)

lemma emitted_usd:
  "map usd_fields (emitted_matches R k s rem open_lots)
     = map usd_fields (emitted_matches R' k s rem open_lots)"
  by (induction open_lots arbitrary: rem) (simp_all add: usd_fields_make_match[of R _ _ _ _ R'])

lemma match_sell_lots_rates:
  "fst (match_sell R k s rem open_lots st) = fst (match_sell R' k s rem open_lots st')"
  by (induction open_lots arbitrary: rem st st') simp_all

lemma process_sells_rates:
  "map usd_fields (detailed_transactions st) = map usd_fields (detailed_transactions st') \<Longrightarrow>
   fst (process_sells R k ss open_lots st) = fst (process_sells R' k ss open_lots st')
   \<and> map usd_fields (detailed_transactions (snd (process_sells R k ss open_lots st)))
     = map usd_fields (detailed_transactions (snd (process_sells R' k ss open_lots st')))"
proof (induction ss arbitrary: open_lots st st')
  case Nil
  then show ?case by simp
next
  case (Cons s later)
  obtain l1 s1 where m1: "match_sell R k s (s_quantity s) open_lots st = (l1, s1)"
    by (cases "match_sell R k s (s_quantity s) open_lots st")
  obtain l2 s2 where m2: "match_sell R' k s (s_quantity s) open_lots st' = (l2, s2)"
    by (cases "match_sell R' k s (s_quantity s) open_lots st'")
  have l: "l1 = l2"
    using match_sell_lots_rates[of R k s "s_quantity s" open_lots st R' st'] m1 m2 by simp
  have "detailed_transactions s1 = detailed_transactions st @ emitted_matches R k s (s_quantity s) open_lots"
    using match_sell_emits[of R k s "s_quantity s" open_lots st] m1 by simp
  moreover have "detailed_transactions s2 = detailed_transactions st' @ emitted_matches R' k s (s_quantity s) open_lots"
    using match_sell_emits[of R' k s "s_quantity s" open_lots st'] m2 by simp
  ultimately have "map usd_fields (detailed_transactions s1) = map usd_fields (detailed_transactions s2)"
    using Cons.prems emitted_usd[of R k s "s_quantity s" open_lots R'] by simp
  from Cons.IH[OF this, of l1] show ?case using m1 m2 l by simp
qed

lemma process_symbols_rates:
  "map usd_fields (detailed_transactions st) = map usd_fields (detailed_transactions st') \<Longrightarrow>
   map usd_fields (detailed_transactions (process_symbols R gs st))
     = map usd_fields (detailed_transactions (process_symbols R' gs st'))"
proof (induction gs arbitrary: st st')
  case Nil
  then show ?case by simp
next
  case (Cons kg gs)
  obtain k g where kg: "kg = (k, g)" by (cases kg)
  have "map usd_fields (detailed_transactions (snd (process_sells R k (sells g) (buys g) st)))
     = map usd_fields (detailed_transactions (snd (process_sells R' k (sells g) (buys g) st')))"
    using process_sells_rates[OF Cons.prems] by simp
  from Cons.IH[OF this] show ?case using kg by simp
qed

lemma report_usd_rates:
  "map usd_fields (detailed_transactions (process_fifo_gains_by_category R gs))
     = map usd_fields (detailed_transactions (process_fifo_gains_by_category R' gs))"
  using process_symbols_rates[of initial_state initial_state R gs R']
  by (simp add: report_matches_list)

lemma make_match_no_buy_rate:
  "get_exchange_rate R (take 10 (buy_date (make_match R k b s q))) = None \<Longrightarrow>
   cost_basis_eur (make_match R k b s q) = cost_basis (make_match R k b s q)
   \<and> buy_price_eur (make_match R k b s q) = buy_price (make_match R k b s q)"
  by (simp add: make_match_def Let_def or_else_def)

lemma make_match_no_sell_rate:
  "get_exchange_rate R (take 10 (sell_date (make_match R k b s q))) = None \<Longrightarrow>
   proceeds_eur (make_match R k b s q) = proceeds (make_match R k b s q)
   \<and> sell_price_eur (make_match R k b s q) = sell_price (make_match R k b s q)"
  by (simp add: make_match_def Let_def or_else_def)

lemma make_match_no_rates:
  "get_exchange_rate R (take 10 (buy_date (make_match R k b s q))) = None \<Longrightarrow>
   get_exchange_rate R (take 10 (sell_date (make_match R k b s q))) = None \<Longrightarrow>
   gain_loss_eur (make_match R k b s q) = gain_loss (make_match R k b s q)"
  by (simp add: make_match_def Let_def or_else_def calculate_fifo_match_def)

lemma make_match_eur_exact:
  "cost_basis_eur (make_match R k b s q)
     = cost_basis (make_match R k b s q)
         / or_else (get_exchange_rate R (take 10 (buy_date (make_match R k b s q)))) 1
   \<and> proceeds_eur (make_match R k b s q)
     = proceeds (make_match R k b s q)
         / or_else (get_exchange_rate R (take 10 (sell_date (make_match R k b s q)))) 1
   \<and> gain_loss_eur (make_match R k b s q)
     = proceeds_eur (make_match R k b s q) - cost_basis_eur (make_match R k b s q)"
  by (simp add: make_match_def Let_def)

lemma round_half_even_near: "\<bar>of_int (round_half_even x) - x\<bar> \<le> 1 / 2"
proof -
  have "of_int \<lfloor>x\<rfloor> \<le> x" "x < of_int \<lfloor>x\<rfloor> + 1" by linarith+
  then show ?thesis by (auto simp: round_half_even_def Let_def abs_le_iff)
qed

lemma round2_cents: "\<exists>n::int. round2 x = of_int n / 100"
  by (auto simp: round2_def)

lemma round2_near: "\<bar>round2 x - x\<bar> \<le> 1 / 200"
proof -
  have "\<bar>of_int (round_half_even (x * 100)) - x * 100\<bar> \<le> 1 / 2" by (rule round_half_even_near)
  then have "\<bar>(of_int (round_half_even (x * 100)) - x * 100) / 100\<bar> \<le> (1 / 2) / 100"
    by (simp add: abs_le_iff)
  then show ?thesis by (simp add: round2_def diff_divide_distrib)
qed

lemma convert_rounds:
  assumes "convert_usd_to_eur R a d = Some e"
  shows "\<exists>x rate. a = Some x \<and> get_exchange_rate R d = Some rate \<and> e = round2 (x / rate)"
  using assms by (auto simp: convert_usd_to_eur_def split: option.splits if_splits)

lemma eur_split:
  "eur_gains P txs - eur_losses P txs
     = sum_list (map gain_loss_eur (filter (\<lambda>tx. P (m_asset_category tx)) txs))"
  by (induction txs) (auto simp: eur_gains_def eur_losses_def)

lemma sum_three_way:
  "sum_list (map f (filter (\<lambda>tx. c tx = Some ''Stock'') txs))
   + sum_list (map f (filter (\<lambda>tx. c tx = Some ''Option'') txs))
   + sum_list (map f (filter (\<lambda>tx. c tx \<notin> set [Some ''Stock'', Some ''Option'']) txs))
   = (sum_list (map f txs) :: real)"
  by (induction txs) auto


section \<open>The yearly report filters transactions before matching\<close>

text \<open>
  C5, as amended. For a fiscal year \<open>y\<close> the report is the FIFO matching of the
  transactions dated in \<open>y\<close> only: the year condition is part of the query, so the
  report for \<open>y\<close> equals the unrestricted report over the store's rows of year \<open>y\<close>, and
  every match in it has both its buy date and its sell date in \<open>y\<close> (in the current year
  for \<open>ytd\<close>). A lot bought in an earlier year is not available to a sale in \<open>y\<close>.
\<close>

theorem year_filter_precedes_matching:
  assumes "y \<noteq> []" and "y \<noteq> ''ytd''"
  shows "calculate_realized_gains_losses store R sf (Some y) cy
       = calculate_realized_gains_losses (filter (\<lambda>t. take 4 (Date t) = y) store) R sf None cy
    \<and> (\<forall>m \<in> set (detailed_transactions (calculate_realized_gains_losses store R sf (Some y) cy)).
          take 4 (buy_date m) = y \<and> take 4 (sell_date m) = y)
    \<and> (\<forall>m \<in> set (detailed_transactions
                    (calculate_realized_gains_losses store R sf (Some ''ytd'') cy)).
          take 4 (buy_date m) = cy \<and> take 4 (sell_date m) = cy)"
proof -
  have a: "\<forall>m \<in> set (detailed_transactions (calculate_realized_gains_losses store R sf (Some y) cy)).
          take 4 (buy_date m) = y \<and> take 4 (sell_date m) = y"
  proof
    fix m
    assume "m \<in> set (detailed_transactions (calculate_realized_gains_losses store R sf (Some y) cy))"
    from report_dates_from_query[OF this] obtain t1 t2 where
      "build_gains_query_conditions sf (Some y) cy t1" "build_gains_query_conditions sf (Some y) cy t2"
      "buy_date m = Date t1" "sell_date m = Date t2" by blast
    then show "take 4 (buy_date m) = y \<and> take 4 (sell_date m) = y"
      using assms by (simp add: build_gains_query_conditions_def)
  qed
  have b: "\<forall>m \<in> set (detailed_transactions
                    (calculate_realized_gains_losses store R sf (Some ''ytd'') cy)).
          take 4 (buy_date m) = cy \<and> take 4 (sell_date m) = cy"
  proof
    fix m
    assume "m \<in> set (detailed_transactions
                    (calculate_realized_gains_losses store R sf (Some ''ytd'') cy))"
    from report_dates_from_query[OF this] obtain t1 t2 where
      "build_gains_query_conditions sf (Some ''ytd'') cy t1"
      "build_gains_query_conditions sf (Some ''ytd'') cy t2"
      "buy_date m = Date t1" "sell_date m = Date t2" by blast
    then show "take 4 (buy_date m) = cy \<and> take 4 (sell_date m) = cy"
      by (simp add: build_gains_query_conditions_def)
  qed
  from year_filter_first[OF assms] a b show ?thesis by blast
qed

theorem year_filter_precedes_matching_witness:
  "map (\<lambda>m. (buy_date m, sell_date m, cost_basis m))
     (detailed_transactions (calculate_realized_gains_losses
        [trade_row ''2023-06-01'' ''XYZ'' ''BUY_TO_OPEN'' (Some 10) 100 1000 0,
         trade_row ''2024-02-01'' ''XYZ'' ''BUY_TO_OPEN'' (Some 10) 120 1200 0,
         trade_row ''2024-03-01'' ''XYZ'' ''SELL_TO_CLOSE'' (Some 10) 150 1500 0]
        [] None (Some ''2024'') ''2026''))
   = [(''2024-02-01'', ''2024-03-01'', 1200)]"
  using year_filter_precedes_matching
    [of "''2024''"
        "[trade_row ''2023-06-01'' ''XYZ'' ''BUY_TO_OPEN'' (Some 10) 100 1000 0,
          trade_row ''2024-02-01'' ''XYZ'' ''BUY_TO_OPEN'' (Some 10) 120 1200 0,
          trade_row ''2024-03-01'' ''XYZ'' ''SELL_TO_CLOSE'' (Some 10) 150 1500 0]"
        "[]" None "''2026''"]
  by (simp add: eval_defs)

text \<open>
  The claim as stated fails: a lot bought in 2023 and sold in 2024. The full matching
  restricted to sales of 2024 has one match with the 2023 cost basis of 1000; the report
  for 2024 has no match.
\<close>

theorem full_matching_then_restriction_counterexample:
  "detailed_transactions (calculate_realized_gains_losses
      [trade_row ''2023-06-01'' ''XYZ'' ''BUY_TO_OPEN'' (Some 10) 100 1000 0,
       trade_row ''2024-03-01'' ''XYZ'' ''SELL_TO_CLOSE'' (Some 10) 150 1500 0]
      [] None (Some ''2024'') ''2026'') = []
   \<and> map (\<lambda>m. (buy_date m, sell_date m, cost_basis m))
       (spec_realized_matches
          [trade_row ''2023-06-01'' ''XYZ'' ''BUY_TO_OPEN'' (Some 10) 100 1000 0,
           trade_row ''2024-03-01'' ''XYZ'' ''SELL_TO_CLOSE'' (Some 10) 150 1500 0]
          [] ''2024'')
     = [(''2023-06-01'', ''2024-03-01'', 1000)]"
  by (simp add: eval_defs spec_realized_matches_def)


section \<open>A single close takes from the oldest lot\<close>

text \<open>
  C1, as amended. For a symbol whose lots were opened at strictly increasing dates, a
  single closing transaction whose quantity is positive and smaller than the first lot's
  quantity produces exactly one match. The match carries the first lot's date, which is
  earlier than the date of every later lot, and the closing quantity; its cost basis is
  the matched share of the first lot's cost and fees. Afterwards the first lot's quantity
  is reduced by the closing quantity and its \<open>total_cost\<close> and \<open>fees\<close> in the same
  proportion, and the later lots are unchanged.
\<close>

theorem fifo_oldest_lot_first:
  assumes "sorted_wrt (<) (map date (b1 # later))"
    and "0 < s_quantity sell" and "s_quantity sell < quantity b1"
  shows "fst (process_sells R k [sell] (b1 # later) st)
       = b1\<lparr>quantity := quantity b1 - s_quantity sell,
            total_cost := total_cost b1 * ((quantity b1 - s_quantity sell) / quantity b1),
            fees := fees b1 * ((quantity b1 - s_quantity sell) / quantity b1)\<rparr> # later
    \<and> (\<exists>m. detailed_transactions (snd (process_sells R k [sell] (b1 # later) st))
              = detailed_transactions st @ [m]
          \<and> detailed_transactions (process_fifo_gains_by_category R
               [(k, \<lparr>buys = b1 # later, sells = [sell], g_asset_category = c\<rparr>)]) = [m]
          \<and> buy_date m = date b1 \<and> (\<forall>b \<in> set later. buy_date m < date b)
          \<and> sell_date m = s_date sell \<and> m_quantity m = s_quantity sell
          \<and> cost_basis m = (s_quantity sell / quantity b1) * (total_cost b1 + fees b1))"
proof -
  let ?m = "make_match R k b1 sell (s_quantity sell)"
  have run: "\<And>st. process_sells R k [sell] (b1 # later) st
      = (shrink_buy b1 (s_quantity sell) # later, record_match ?m st)"
    using assms(2,3) by (rule single_close)
  have lots: "fst (process_sells R k [sell] (b1 # later) st)
       = b1\<lparr>quantity := quantity b1 - s_quantity sell,
            total_cost := total_cost b1 * ((quantity b1 - s_quantity sell) / quantity b1),
            fees := fees b1 * ((quantity b1 - s_quantity sell) / quantity b1)\<rparr> # later"
    using run[of st] partial_first_lot[OF assms(2,3)] by simp
  have one: "detailed_transactions (snd (process_sells R k [sell] (b1 # later) st))
      = detailed_transactions st @ [?m]"
    using run[of st] by simp
  have rep: "detailed_transactions (process_fifo_gains_by_category R
               [(k, \<lparr>buys = b1 # later, sells = [sell], g_asset_category = c\<rparr>)]) = [?m]"
    using run[of initial_state] by (simp add: report_matches_list initial_state_def)
  have older: "\<forall>b \<in> set later. buy_date ?m < date b"
    using assms(1) by simp
  have "0 < quantity b1" using assms(2,3) by simp
  then have cost: "cost_basis ?m = (s_quantity sell / quantity b1) * (total_cost b1 + fees b1)"
    by (rule make_match_cost)
  from one rep older cost have "\<exists>m. detailed_transactions (snd (process_sells R k [sell] (b1 # later) st))
              = detailed_transactions st @ [m]
          \<and> detailed_transactions (process_fifo_gains_by_category R
               [(k, \<lparr>buys = b1 # later, sells = [sell], g_asset_category = c\<rparr>)]) = [m]
          \<and> buy_date m = date b1 \<and> (\<forall>b \<in> set later. buy_date m < date b)
          \<and> sell_date m = s_date sell \<and> m_quantity m = s_quantity sell
          \<and> cost_basis m = (s_quantity sell / quantity b1) * (total_cost b1 + fees b1)"
    by (intro exI[of _ ?m]) simp
  with lots show ?thesis by blast
qed

theorem fifo_oldest_lot_first_witness:
  "map (\<lambda>b. (date b, quantity b, total_cost b, fees b))
     (fst (process_sells [] (Some ''XYZ'')
        [sell_entry (trade_row ''2024-01-03'' ''XYZ'' ''SELL_TO_CLOSE'' (Some 40) 15 600 0)]
        [buy_entry (trade_row ''2024-01-01'' ''XYZ'' ''BUY_TO_OPEN'' (Some 100) 10 1000 5),
         buy_entry (trade_row ''2024-01-02'' ''XYZ'' ''BUY_TO_OPEN'' (Some 50) 12 600 3)]
        initial_state))
   = [(''2024-01-01'', 60, 600, 3), (''2024-01-02'', 50, 600, 3)]
   \<and> map (\<lambda>m. (buy_date m, m_quantity m, cost_basis m))
       (detailed_transactions (snd (process_sells [] (Some ''XYZ'')
        [sell_entry (trade_row ''2024-01-03'' ''XYZ'' ''SELL_TO_CLOSE'' (Some 40) 15 600 0)]
        [buy_entry (trade_row ''2024-01-01'' ''XYZ'' ''BUY_TO_OPEN'' (Some 100) 10 1000 5),
         buy_entry (trade_row ''2024-01-02'' ''XYZ'' ''BUY_TO_OPEN'' (Some 50) 12 600 3)]
        initial_state)))
     = [(''2024-01-01'', 40, 402)]"
  using fifo_oldest_lot_first
    [of "buy_entry (trade_row ''2024-01-01'' ''XYZ'' ''BUY_TO_OPEN'' (Some 100) 10 1000 5)"
        "[buy_entry (trade_row ''2024-01-02'' ''XYZ'' ''BUY_TO_OPEN'' (Some 50) 12 600 3)]"
        "sell_entry (trade_row ''2024-01-03'' ''XYZ'' ''SELL_TO_CLOSE'' (Some 40) 15 600 0)"
        "[]" "Some ''XYZ''" initial_state None]
  by (simp add: eval_defs)

text \<open>
  The claim as stated fails for a closing transaction of quantity zero, which is smaller
  than the first lot's quantity: the loop \<open>while remaining_sell_qty > 0\<close> is not entered
  and no match is produced.
\<close>

theorem zero_quantity_close_counterexample:
  "detailed_transactions (process_fifo_gains_by_category []
     (group_transactions_by_symbol
        [trade_row ''2024-01-01'' ''XYZ'' ''BUY_TO_OPEN'' (Some 100) 10 1000 5,
         trade_row ''2024-01-02'' ''XYZ'' ''BUY_TO_OPEN'' (Some 50) 12 600 3,
         trade_row ''2024-01-03'' ''XYZ'' ''SELL_TO_CLOSE'' (Some 0) 15 0 0])) = []"
  by (simp add: eval_defs)


section \<open>Conservation of quantity and of value\<close>




section \<open>A close larger than the open quantity\<close>





section \<open>Which actions open and which close\<close>





section \<open>A missing exchange rate\<close>

text \<open>
  C7, as amended. For every match of a report whose buy date has no resolvable rate, the
  rate 1.0 is used: \<open>cost_basis_eur\<close> and \<open>buy_price_eur\<close> are present and equal to the USD
  amounts; likewise \<open>proceeds_eur\<close> and \<open>sell_price_eur\<close> when the sell date has no rate,
  and \<open>gain_loss_eur\<close> equals \<open>gain_loss\<close> when both are missing. The USD fields of the
  matches are the same whatever the rate table is, and the report is a total function of
  its input: a missing rate cannot make it fail.
\<close>

theorem missing_rate_falls_back_to_one:
  "(\<forall>m \<in> set (detailed_transactions (process_fifo_gains_by_category R gs)).
       (get_exchange_rate R (take 10 (buy_date m)) = None \<longrightarrow>
          cost_basis_eur m = cost_basis m \<and> buy_price_eur m = buy_price m)
     \<and> (get_exchange_rate R (take 10 (sell_date m)) = None \<longrightarrow>
          proceeds_eur m = proceeds m \<and> sell_price_eur m = sell_price m)
     \<and> (get_exchange_rate R (take 10 (buy_date m)) = None
          \<and> get_exchange_rate R (take 10 (sell_date m)) = None \<longrightarrow>
          gain_loss_eur m = gain_loss m))
   \<and> map usd_fields (detailed_transactions (process_fifo_gains_by_category R gs))
     = map usd_fields (detailed_transactions (process_fifo_gains_by_category R' gs))"
proof -
  have "\<forall>m \<in> set (detailed_transactions (process_fifo_gains_by_category R gs)).
       (get_exchange_rate R (take 10 (buy_date m)) = None \<longrightarrow>
          cost_basis_eur m = cost_basis m \<and> buy_price_eur m = buy_price m)
     \<and> (get_exchange_rate R (take 10 (sell_date m)) = None \<longrightarrow>
          proceeds_eur m = proceeds m \<and> sell_price_eur m = sell_price m)
     \<and> (get_exchange_rate R (take 10 (buy_date m)) = None
          \<and> get_exchange_rate R (take 10 (sell_date m)) = None \<longrightarrow>
          gain_loss_eur m = gain_loss m)"
  proof
    fix m
    assume "m \<in> set (detailed_transactions (process_fifo_gains_by_category R gs))"
    from report_matches[OF this] obtain k b s q where m: "m = make_match R k b s q" by blast
    show "(get_exchange_rate R (take 10 (buy_date m)) = None \<longrightarrow>
          cost_basis_eur m = cost_basis m \<and> buy_price_eur m = buy_price m)
     \<and> (get_exchange_rate R (take 10 (sell_date m)) = None \<longrightarrow>
          proceeds_eur m = proceeds m \<and> sell_price_eur m = sell_price m)
     \<and> (get_exchange_rate R (take 10 (buy_date m)) = None
          \<and> get_exchange_rate R (take 10 (sell_date m)) = None \<longrightarrow>
          gain_loss_eur m = gain_loss m)"
      unfolding m
      using make_match_no_buy_rate[of R k b s q] make_match_no_sell_rate[of R k b s q]
        make_match_no_rates[of R k b s q]
      by blast
  qed
  then show ?thesis using report_usd_rates[of R gs R'] by blast
qed

theorem missing_rate_falls_back_to_one_witness:
  "map (\<lambda>m. (cost_basis m, cost_basis_eur m, proceeds m, proceeds_eur m, gain_loss_eur m))
     (detailed_transactions (process_fifo_gains_by_category [(''2024-01-05'', 1.25)]
        (group_transactions_by_symbol
           [trade_row ''2024-01-01'' ''XYZ'' ''BUY_TO_OPEN'' (Some 100) 10 1000 5,
            trade_row ''2024-01-05'' ''XYZ'' ''SELL_TO_CLOSE'' (Some 100) 15 1500 0])))
   = [(1005, 1005, 1500, 1200, 195)]
   \<and> map (\<lambda>m. (cost_basis m, cost_basis_eur m, proceeds m, proceeds_eur m, gain_loss_eur m))
     (detailed_transactions (process_fifo_gains_by_category [(''2024-02-03'', 1.25)]
        (group_transactions_by_symbol
           [trade_row ''2024-02-01'' ''XYZ 240315C100'' ''SELL_TO_OPEN'' (Some 1) 3 300 0,
            trade_row ''2024-02-05'' ''XYZ 240315C100'' ''BUY_TO_CLOSE'' (Some 1) 1 100 0])))
   = [(100, 80, 300, 300, 220)]
   \<and> map (\<lambda>m. (cost_basis m, cost_basis_eur m, proceeds m, proceeds_eur m, gain_loss_eur m))
     (detailed_transactions (process_fifo_gains_by_category []
        (group_transactions_by_symbol
           [trade_row ''2024-03-01'' ''XYZ'' ''BUY_TO_OPEN'' (Some 10) 20 200 0,
            trade_row ''2024-03-05'' ''XYZ'' ''SELL_TO_CLOSE'' (Some 10) 25 250 0])))
   = [(200, 200, 250, 250, 50)]"
proof -
  have buy_side: "map (\<lambda>m. (cost_basis m, cost_basis_eur m, proceeds m, proceeds_eur m, gain_loss_eur m))
     (detailed_transactions (process_fifo_gains_by_category [(''2024-01-05'', 1.25)]
        (group_transactions_by_symbol
           [trade_row ''2024-01-01'' ''XYZ'' ''BUY_TO_OPEN'' (Some 100) 10 1000 5,
            trade_row ''2024-01-05'' ''XYZ'' ''SELL_TO_CLOSE'' (Some 100) 15 1500 0])))
   = [(1005, 1005, 1500, 1200, 195)]"
    using missing_rate_falls_back_to_one
      [of "[(''2024-01-05'', 1.25)]"
          "group_transactions_by_symbol
             [trade_row ''2024-01-01'' ''XYZ'' ''BUY_TO_OPEN'' (Some 100) 10 1000 5,
              trade_row ''2024-01-05'' ''XYZ'' ''SELL_TO_CLOSE'' (Some 100) 15 1500 0]"
          "[]"]
    by (simp add: eval_defs)
  have sell_side: "map (\<lambda>m. (cost_basis m, cost_basis_eur m, proceeds m, proceeds_eur m, gain_loss_eur m))
     (detailed_transactions (process_fifo_gains_by_category [(''2024-02-03'', 1.25)]
        (group_transactions_by_symbol
           [trade_row ''2024-02-01'' ''XYZ 240315C100'' ''SELL_TO_OPEN'' (Some 1) 3 300 0,
            trade_row ''2024-02-05'' ''XYZ 240315C100'' ''BUY_TO_CLOSE'' (Some 1) 1 100 0])))
   = [(100, 80, 300, 300, 220)]"
    using missing_rate_falls_back_to_one
      [of "[(''2024-02-03'', 1.25)]"
          "group_transactions_by_symbol
             [trade_row ''2024-02-01'' ''XYZ 240315C100'' ''SELL_TO_OPEN'' (Some 1) 3 300 0,
              trade_row ''2024-02-05'' ''XYZ 240315C100'' ''BUY_TO_CLOSE'' (Some 1) 1 100 0]"
          "[]"]
    by (simp add: eval_defs)
  have both: "map (\<lambda>m. (cost_basis m, cost_basis_eur m, proceeds m, proceeds_eur m, gain_loss_eur m))
     (detailed_transactions (process_fifo_gains_by_category []
        (group_transactions_by_symbol
           [trade_row ''2024-03-01'' ''XYZ'' ''BUY_TO_OPEN'' (Some 10) 20 200 0,
            trade_row ''2024-03-05'' ''XYZ'' ''SELL_TO_CLOSE'' (Some 10) 25 250 0])))
   = [(200, 200, 250, 250, 50)]"
    using missing_rate_falls_back_to_one
      [of "[]"
          "group_transactions_by_symbol
             [trade_row ''2024-03-01'' ''XYZ'' ''BUY_TO_OPEN'' (Some 10) 20 200 0,
              trade_row ''2024-03-05'' ''XYZ'' ''SELL_TO_CLOSE'' (Some 10) 25 250 0]"
          "[(''2024-01-01'', 1.10)]"]
    by (simp add: eval_defs)
  show ?thesis by (rule conjI[OF buy_side conjI[OF sell_side both]])
qed

text \<open>
  The claim as stated fails: with an empty rate table neither date has a rate, and the
  EUR fields of the match are not absent but carry the USD amounts.
\<close>

theorem missing_rate_not_null_counterexample:
  "get_exchange_rate [] (take 10 ''2024-01-01'') = None
   \<and> get_exchange_rate [] (take 10 ''2024-01-05'') = None
   \<and> map (\<lambda>m. (buy_price_eur m, sell_price_eur m, cost_basis_eur m, proceeds_eur m, gain_loss_eur m))
       (detailed_transactions (calculate_realized_gains_losses
          [trade_row ''2024-01-01'' ''XYZ'' ''BUY_TO_OPEN'' (Some 100) 10 1000 5,
           trade_row ''2024-01-05'' ''XYZ'' ''SELL_TO_CLOSE'' (Some 100) 15 1500 0]
          [] None None ''2024''))
     = [(10, 15, 1005, 1500, 495)]"
  by (simp add: eval_defs)


section \<open>Where EUR values are rounded\<close>

text \<open>
  C9, as amended. \<open>convert_usd_to_eur\<close> rounds every single conversion to 2 decimal
  places: its result is the rounded quotient, a whole number of cents within half a cent
  of the exact quotient. The realized-gains report rounds nowhere: every match's
  \<open>cost_basis_eur\<close> and \<open>proceeds_eur\<close> are the exact quotients by the rate used, its
  \<open>gain_loss_eur\<close> is their exact difference, and the six per-category EUR totals add up
  to the exact sum of the matches' \<open>gain_loss_eur\<close>.
\<close>

theorem rounding_per_conversion_not_per_report:
  "(convert_usd_to_eur R a d = Some e \<longrightarrow>
      (\<exists>x rate. a = Some x \<and> get_exchange_rate R d = Some rate \<and> e = round2 (x / rate)
         \<and> \<bar>e - x / rate\<bar> \<le> 1 / 200)
      \<and> (\<exists>n::int. e = of_int n / 100))
   \<and> (\<forall>m \<in> set (detailed_transactions (process_fifo_gains_by_category R gs)).
         cost_basis_eur m
           = cost_basis m / or_else (get_exchange_rate R (take 10 (buy_date m))) 1
         \<and> proceeds_eur m
           = proceeds m / or_else (get_exchange_rate R (take 10 (sell_date m))) 1
         \<and> gain_loss_eur m = proceeds_eur m - cost_basis_eur m)
   \<and> stock_gains_eur (process_fifo_gains_by_category R gs)
       + option_gains_eur (process_fifo_gains_by_category R gs)
       + other_gains_eur (process_fifo_gains_by_category R gs)
       - (stock_losses_eur (process_fifo_gains_by_category R gs)
          + option_losses_eur (process_fifo_gains_by_category R gs)
          + other_losses_eur (process_fifo_gains_by_category R gs))
     = sum_list (map gain_loss_eur (detailed_transactions (process_fifo_gains_by_category R gs)))"
proof -
  have conv: "convert_usd_to_eur R a d = Some e \<longrightarrow>
      (\<exists>x rate. a = Some x \<and> get_exchange_rate R d = Some rate \<and> e = round2 (x / rate)
         \<and> \<bar>e - x / rate\<bar> \<le> 1 / 200)
      \<and> (\<exists>n::int. e = of_int n / 100)"
  proof
    assume "convert_usd_to_eur R a d = Some e"
    from convert_rounds[OF this] obtain x rate where
      xr: "a = Some x" "get_exchange_rate R d = Some rate" "e = round2 (x / rate)" by blast
    have "\<bar>e - x / rate\<bar> \<le> 1 / 200" unfolding xr(3) by (rule round2_near)
    moreover have "\<exists>n::int. e = of_int n / 100" unfolding xr(3) by (rule round2_cents)
    ultimately show "(\<exists>x rate. a = Some x \<and> get_exchange_rate R d = Some rate \<and> e = round2 (x / rate)
         \<and> \<bar>e - x / rate\<bar> \<le> 1 / 200)
      \<and> (\<exists>n::int. e = of_int n / 100)"
      using xr by blast
  qed
  have exact: "\<forall>m \<in> set (detailed_transactions (process_fifo_gains_by_category R gs)).
         cost_basis_eur m
           = cost_basis m / or_else (get_exchange_rate R (take 10 (buy_date m))) 1
         \<and> proceeds_eur m
           = proceeds m / or_else (get_exchange_rate R (take 10 (sell_date m))) 1
         \<and> gain_loss_eur m = proceeds_eur m - cost_basis_eur m"
  proof
    fix m
    assume "m \<in> set (detailed_transactions (process_fifo_gains_by_category R gs))"
    from report_matches[OF this] obtain k b s q where m: "m = make_match R k b s q" by blast
    show "cost_basis_eur m
           = cost_basis m / or_else (get_exchange_rate R (take 10 (buy_date m))) 1
         \<and> proceeds_eur m
           = proceeds m / or_else (get_exchange_rate R (take 10 (sell_date m))) 1
         \<and> gain_loss_eur m = proceeds_eur m - cost_basis_eur m"
      unfolding m by (rule make_match_eur_exact)
  qed
  let ?txs = "detailed_transactions (process_symbols R gs initial_state)"
  have "eur_gains (\<lambda>c. c = Some ''Stock'') ?txs - eur_losses (\<lambda>c. c = Some ''Stock'') ?txs
      + (eur_gains (\<lambda>c. c = Some ''Option'') ?txs - eur_losses (\<lambda>c. c = Some ''Option'') ?txs)
      + (eur_gains (\<lambda>c. c \<notin> set [Some ''Stock'', Some ''Option'']) ?txs
         - eur_losses (\<lambda>c. c \<notin> set [Some ''Stock'', Some ''Option'']) ?txs)
      = sum_list (map gain_loss_eur ?txs)"
    unfolding eur_split by (rule sum_three_way)
  then have total: "stock_gains_eur (process_fifo_gains_by_category R gs)
       + option_gains_eur (process_fifo_gains_by_category R gs)
       + other_gains_eur (process_fifo_gains_by_category R gs)
       - (stock_losses_eur (process_fifo_gains_by_category R gs)
          + option_losses_eur (process_fifo_gains_by_category R gs)
          + other_losses_eur (process_fifo_gains_by_category R gs))
     = sum_list (map gain_loss_eur (detailed_transactions (process_fifo_gains_by_category R gs)))"
    by (simp add: process_fifo_gains_by_category_def Let_def)
  from conv exact total show ?thesis by blast
qed

theorem rounding_per_conversion_not_per_report_witness:
  "convert_usd_to_eur [(''2024-01-01'', 1.10)] (Some 100.05) ''2024-01-01'' = Some 90.95
   \<and> map (\<lambda>m. (cost_basis_eur m, proceeds_eur m, gain_loss_eur m))
       (detailed_transactions (process_fifo_gains_by_category [(''2024-01-01'', 1.10)]
          (group_transactions_by_symbol
             [trade_row ''2024-01-01'' ''XYZ'' ''BUY_TO_OPEN'' (Some 100) 10 1000 0,
              trade_row ''2024-01-05'' ''XYZ'' ''SELL_TO_CLOSE'' (Some 100) 15 1500 0])))
     = [(10000 / 11, 15000 / 11, 5000 / 11)]"
  using rounding_per_conversion_not_per_report
    [of "[(''2024-01-01'', 1.10)]" "Some 100.05" "''2024-01-01''" "90.95"
        "group_transactions_by_symbol
             [trade_row ''2024-01-01'' ''XYZ'' ''BUY_TO_OPEN'' (Some 100) 10 1000 0,
              trade_row ''2024-01-05'' ''XYZ'' ''SELL_TO_CLOSE'' (Some 100) 15 1500 0]"]
  by (simp add: eval_defs convert_usd_to_eur_def round2_def round_half_even_def)

text \<open>
  The claim as stated fails on both counts. Two deposits of 100.05 at the rate 1.10 are
  each rounded to 90.95 before they are summed, so the wire-funds total is 181.90 where
  one rounding of the exact sum gives 181.91; and the stock gains of the realized-gains
  report, 5000/11, are not rounded to 2 decimal places at all.
\<close>

theorem rounding_counterexample:
  "convert_usd_to_eur [(''2024-01-01'', 1.10)] (Some 100.05) ''2024-01-01'' = Some 90.95
   \<and> wire_funds_total_eur [(''2024-01-01'', 1.10)] ''2024-06-30''
        [(Some ''2024-01-01'', Some 100.05), (Some ''2024-01-01'', Some 100.05)] = 181.90
   \<and> round2 (100.05 / 1.10 + 100.05 / 1.10) = 181.91
   \<and> stock_gains_eur (calculate_realized_gains_losses
        [trade_row ''2024-01-01'' ''XYZ'' ''BUY_TO_OPEN'' (Some 100) 10 1000 0,
         trade_row ''2024-01-05'' ''XYZ'' ''SELL_TO_CLOSE'' (Some 100) 15 1500 0]
        [(''2024-01-01'', 1.10)] None None ''2024'') = 5000 / 11
   \<and> round2 (5000 / 11) = 454.55"
  by (simp add: eval_defs convert_usd_to_eur_def round2_def round_half_even_def)

end
